theory Spec2Isabelle
  imports Complex_Main "HOL-Library.AList"
begin

section \<open>JavaScript numbers\<close>

text \<open>
  A JavaScript number is an IEEE 754 double: a finite value, one of the two infinities, or
  \<open>NaN\<close>. A finite double is modelled by the rational it denotes (the sign of zero is not
  kept). Not every rational is a double; \<open>is_double\<close> below says which are.
\<close>

datatype number = Fin rat | PInf | NInf | NaN

text \<open>
  The binary exponent of a non-zero rational: \<open>expo r = e\<close> where
  \<open>2 ^ e \<le> \<bar>r\<bar> < 2 ^ (e + 1)\<close>, found by halving from above and doubling from below.
\<close>

function expo_up :: "rat \<Rightarrow> int" where
  "expo_up r = (if 2 \<le> r then expo_up (r / 2) + 1 else 0)"
  by pat_completeness auto
termination
proof (relation "measure (\<lambda>r. nat \<lfloor>r\<rfloor>)")
  show "wf (measure (\<lambda>r::rat. nat \<lfloor>r\<rfloor>))" by simp
next
  fix r :: rat
  assume r: "2 \<le> r"
  have "r / 2 < of_int \<lfloor>r\<rfloor>"
    using r floor_correct [of r] by linarith
  then have "\<lfloor>r / 2\<rfloor> < \<lfloor>r\<rfloor>"
    by (simp add: floor_less_iff)
  moreover have "0 < \<lfloor>r\<rfloor>" using r by simp
  ultimately show "(r / 2, r) \<in> measure (\<lambda>r. nat \<lfloor>r\<rfloor>)"
    by simp
qed

function expo_down :: "rat \<Rightarrow> int" where
  "expo_down r = (if 0 < r \<and> r < 1 then expo_down (r * 2) - 1 else 0)"
  by pat_completeness auto
termination
proof (relation "measure (\<lambda>r. nat \<lfloor>1 / r\<rfloor>)")
  show "wf (measure (\<lambda>r::rat. nat \<lfloor>1 / r\<rfloor>))" by simp
next
  fix r :: rat
  assume r: "0 < r \<and> r < 1"
  define x where "x = 1 / r"
  have big: "1 < x" using r by (simp add: x_def)
  then have "1 \<le> \<lfloor>x\<rfloor>" by simp
  then have low: "1 \<le> rat_of_int \<lfloor>x\<rfloor>" by linarith
  have "x < rat_of_int \<lfloor>x\<rfloor> + 1" by linarith
  with low have "x / 2 < rat_of_int \<lfloor>x\<rfloor>" by linarith
  then have "\<lfloor>x / 2\<rfloor> < \<lfloor>x\<rfloor>"
    by (simp add: floor_less_iff)
  moreover have "1 / (r * 2) = x / 2" by (simp add: x_def)
  ultimately have less: "\<lfloor>1 / (r * 2)\<rfloor> < \<lfloor>1 / r\<rfloor>"
    by (simp only: x_def)
  have "0 < \<lfloor>x\<rfloor>" using big by simp
  then have "0 < \<lfloor>1 / r\<rfloor>" by (simp only: x_def)
  with less have "nat \<lfloor>1 / (r * 2)\<rfloor> < nat \<lfloor>1 / r\<rfloor>"
    by linarith
  then show "(r * 2, r) \<in> measure (\<lambda>r. nat \<lfloor>1 / r\<rfloor>)"
    by (simp only: in_measure)
qed

definition expo :: "rat \<Rightarrow> int" where
  "expo r = (if 1 \<le> \<bar>r\<bar> then expo_up \<bar>r\<bar> else expo_down \<bar>r\<bar>)"

text \<open>
  The spacing of the doubles around \<open>r\<close>: 53 significant bits, and the fixed spacing
  \<open>2 ^ - 1074\<close> of the subnormal range below \<open>2 ^ - 1022\<close>.
\<close>

definition ulp :: "rat \<Rightarrow> rat" where
  "ulp r = 2 powi (max (expo r) (- 1022) - 52)"

text \<open>Rounding to the nearest integer, a tie going to the even one.\<close>

definition round_even :: "rat \<Rightarrow> int" where
  "round_even x =
     (let f = \<lfloor>x\<rfloor>; d = x - rat_of_int f
      in if d < 1 / 2 then f else if 1 / 2 < d then f + 1 else if even f then f else f + 1)"

text \<open>
  The double nearest to a rational (round to nearest, ties to even), which is an infinity
  when the rounded magnitude reaches \<open>2 ^ 1024\<close>. This is the result that an IEEE
  operation returns for an exact result \<open>r\<close>.
\<close>

definition overflow_bound :: rat where
  "overflow_bound = 2 ^ 1024"

definition round_double :: "rat \<Rightarrow> number" where
  "round_double r =
     (if r = 0 then Fin 0
      else (let v = rat_of_int (round_even (r / ulp r)) * ulp r
            in if overflow_bound \<le> \<bar>v\<bar> then (if 0 < r then PInf else NInf) else Fin v))"

definition is_double :: "rat \<Rightarrow> bool" where
  "is_double r = (round_double r = Fin r)"

declare expo_up.simps [simp del]
declare expo_down.simps [simp del]

text \<open>
  Addition and subtraction of finite numbers. On doubles the result is the double nearest
  to the exact result, or an infinity. A rational that is no double is not a JavaScript
  number and reaches no function of the service (\<open>JSON.parse\<close> and Firestore deliver
  doubles); on such an operand the exact result is kept.
\<close>

definition fl_add :: "rat \<Rightarrow> rat \<Rightarrow> number" where
  "fl_add a b = (if is_double a \<and> is_double b then round_double (a + b) else Fin (a + b))"

definition fl_sub :: "rat \<Rightarrow> rat \<Rightarrow> number" where
  "fl_sub a b = (if is_double a \<and> is_double b then round_double (a - b) else Fin (a - b))"

text \<open>The four operations that the service uses, on all numbers.\<close>

fun num_lt :: "number \<Rightarrow> number \<Rightarrow> bool" where
  "num_lt (Fin a) (Fin b) = (a < b)"
| "num_lt NaN y = False"
| "num_lt x NaN = False"
| "num_lt PInf y = False"
| "num_lt x NInf = False"
| "num_lt NInf y = True"
| "num_lt x PInf = True"

fun num_le :: "number \<Rightarrow> number \<Rightarrow> bool" where
  "num_le (Fin a) (Fin b) = (a \<le> b)"
| "num_le NaN y = False"
| "num_le x NaN = False"
| "num_le NInf y = True"
| "num_le x PInf = True"
| "num_le PInf y = False"
| "num_le x NInf = False"

fun num_add :: "number \<Rightarrow> number \<Rightarrow> number" where
  "num_add (Fin a) (Fin b) = fl_add a b"
| "num_add NaN y = NaN"
| "num_add x NaN = NaN"
| "num_add PInf NInf = NaN"
| "num_add NInf PInf = NaN"
| "num_add PInf y = PInf"
| "num_add NInf y = NInf"
| "num_add x PInf = PInf"
| "num_add x NInf = NInf"

fun num_sub :: "number \<Rightarrow> number \<Rightarrow> number" where
  "num_sub (Fin a) (Fin b) = fl_sub a b"
| "num_sub NaN y = NaN"
| "num_sub x NaN = NaN"
| "num_sub PInf PInf = NaN"
| "num_sub NInf NInf = NaN"
| "num_sub PInf y = PInf"
| "num_sub NInf y = NInf"
| "num_sub x PInf = NInf"
| "num_sub x NInf = PInf"

section \<open>JavaScript values and objects\<close>

text \<open>
  The values that travel through the product service are JSON values and numbers:
  request bodies are parsed JSON and Firestore documents hold JSON-like fields.
\<close>

datatype json =
    JNull
  | JBool bool
  | JNum number
  | JStr string
  | JArr "json list"
  | JObj "(string \<times> json) list"

text \<open>
  A JavaScript value is \<open>undefined\<close> or one of the values above. An object maps property
  names to the values of its own properties. The names that the service reads are none
  of those that \<open>Object.prototype\<close> provides, so reading a name that the object does not
  have yields \<open>undefined\<close>: an object is a function from names to values and \<open>None\<close>
  plays the role of \<open>undefined\<close>. The objects of this type are those that JSON and
  Firestore yield, in which every own property holds a value. An object with an own
  property that holds \<open>undefined\<close>, which only code inside the process can build and
  which Firestore refuses to write, is not a value of this type.
\<close>

type_synonym jsval = "json option"
type_synonym jsobj = "string \<Rightarrow> jsval"

abbreviation num :: "rat \<Rightarrow> jsval" where
  "num r \<equiv> Some (JNum (Fin r))"

abbreviation str :: "string \<Rightarrow> jsval" where
  "str s \<equiv> Some (JStr s)"

text \<open>\<open>Number.isInteger(v)\<close>: \<open>v\<close> is a finite number without fractional part.\<close>

fun isInteger :: "jsval \<Rightarrow> bool" where
  "isInteger (Some (JNum (Fin r))) = (rat_of_int \<lfloor>r\<rfloor> = r)"
| "isInteger _ = False"

text \<open>\<open>typeof v\<close>.\<close>

fun typeof :: "jsval \<Rightarrow> string" where
  "typeof None = ''undefined''"
| "typeof (Some JNull) = ''object''"
| "typeof (Some (JBool b)) = ''boolean''"
| "typeof (Some (JNum n)) = ''number''"
| "typeof (Some (JStr s)) = ''string''"
| "typeof (Some (JArr xs)) = ''object''"
| "typeof (Some (JObj kvs)) = ''object''"

text \<open>Truthiness, as tested by \<open>!v\<close>.\<close>

fun truthy :: "jsval \<Rightarrow> bool" where
  "truthy None = False"
| "truthy (Some JNull) = False"
| "truthy (Some (JBool b)) = b"
| "truthy (Some (JNum n)) = (n \<noteq> Fin 0 \<and> n \<noteq> NaN)"
| "truthy (Some (JStr s)) = (s \<noteq> [])"
| "truthy (Some (JArr xs)) = True"
| "truthy (Some (JObj kvs)) = True"

text \<open>The nullish coalescing operator \<open>a ?? b\<close>.\<close>

fun nullish :: "jsval \<Rightarrow> jsval \<Rightarrow> jsval" where
  "nullish None b = b"
| "nullish (Some JNull) b = b"
| "nullish a b = a"

text \<open>
  The operators \<open><\<close>, \<open><=\<close>, \<open>+\<close> and \<open>-\<close>. The source applies them to operands of the
  TypeScript type \<open>number\<close> only (\<open>amount\<close> after \<open>Number.isInteger\<close>, the fields of a
  \<open>Product\<close>), so they are specified on numbers; JavaScript's coercions of other operand
  types are not modelled and the operators are left unspecified there.
\<close>

fun js_lt :: "jsval \<Rightarrow> jsval \<Rightarrow> bool" where
  "js_lt (Some (JNum a)) (Some (JNum b)) = num_lt a b"

fun js_le :: "jsval \<Rightarrow> jsval \<Rightarrow> bool" where
  "js_le (Some (JNum a)) (Some (JNum b)) = num_le a b"

fun js_add :: "jsval \<Rightarrow> jsval \<Rightarrow> jsval" where
  "js_add (Some (JNum a)) (Some (JNum b)) = Some (JNum (num_add a b))"

fun js_sub :: "jsval \<Rightarrow> jsval \<Rightarrow> jsval" where
  "js_sub (Some (JNum a)) (Some (JNum b)) = Some (JNum (num_sub a b))"

section \<open>The Firestore database\<close>

text \<open>
  The Firestore client \<open>db\<close> is an external library. A database maps a collection name to
  a collection; a collection is a list of documents, each a pair of its id and its data,
  in the order in which a query enumerates them. \<open>get\<close> is \<open>map_of\<close> (a snapshot
  \<open>exists\<close> when it is not \<open>None\<close>), \<open>set\<close> stores the data under the id, \<open>update\<close>
  merges the given fields into the stored data, \<open>delete\<close> removes the document.
\<close>

type_synonym collection = "(string \<times> jsobj) list"
type_synonym firestore = "string \<Rightarrow> collection"

definition doc_get :: "firestore \<Rightarrow> string \<Rightarrow> string \<Rightarrow> jsobj option" where
  "doc_get db collectionName pid = map_of (db collectionName) pid"

definition doc_set :: "firestore \<Rightarrow> string \<Rightarrow> string \<Rightarrow> jsobj \<Rightarrow> firestore" where
  "doc_set db collectionName pid data =
     db(collectionName := AList.update pid data (db collectionName))"

text \<open>
  \<open>update\<close> on a missing document is rejected by Firestore; every caller below tests
  \<open>snap.exists\<close> first, so that case writes nothing here.
\<close>

definition doc_update :: "firestore \<Rightarrow> string \<Rightarrow> string \<Rightarrow> jsobj \<Rightarrow> firestore" where
  "doc_update db collectionName pid fields =
     (case map_of (db collectionName) pid of
        None \<Rightarrow> db
      | Some data \<Rightarrow> db(collectionName := AList.update pid (data ++ fields) (db collectionName)))"

definition doc_delete :: "firestore \<Rightarrow> string \<Rightarrow> string \<Rightarrow> firestore" where
  "doc_delete db collectionName pid =
     db(collectionName := AList.delete pid (db collectionName))"

text \<open>The query \<open>where(field, '!=', null)\<close>: the documents that have the field, not null.\<close>

definition where_not_null :: "firestore \<Rightarrow> string \<Rightarrow> string \<Rightarrow> collection" where
  "where_not_null db collectionName field =
     filter (\<lambda>(pid, data). data field \<noteq> None \<and> data field \<noteq> Some JNull) (db collectionName)"

section \<open>The product service\<close>

text \<open>\<open>new HttpError(status, message)\<close>.\<close>

datatype HttpError = HttpError (status: nat) (message: string)

definition DEFAULT_COLLECTION :: string where
  "DEFAULT_COLLECTION = ''products''"

text \<open>
  The fields that \<open>createProduct\<close> and \<open>updateProduct\<close> treat by name.
\<close>

definition allowed :: "string list" where
  "allowed = [''name'', ''description'', ''stock_quantity'', ''low_stock_threshold'']"

text \<open>
  \<open>Object.keys(payload).filter((k) => !allowed.includes(k)).reduce(...)\<close>, where the
  reducer runs \<open>acc[k] = payload[k]\<close> on an accumulator that starts as \<open>{}\<close>: the object
  that holds \<open>payload[k]\<close> for every key \<open>k\<close> of the payload outside the four named
  fields, except the key \<open>__proto__\<close>. For that key the assignment runs the setter that
  a plain object inherits from \<open>Object.prototype\<close>, which replaces the prototype of the
  accumulator or does nothing, and no own property is created; the spread of the
  accumulator copies own properties only.
\<close>

definition extra_fields :: "jsobj \<Rightarrow> jsobj" where
  "extra_fields payload =
     (\<lambda>k. if k \<in> set allowed \<or> k = ''__proto__'' then None else payload k)"

text \<open>
  The object literal \<open>docData\<close> of \<open>createProduct\<close>, property by property in the order
  of the source; a spread \<open>...o\<close> is \<open>++ o\<close>, so later properties override earlier ones.
  \<open>newId\<close> is the id that \<open>db.collection(collectionName).doc()\<close> generates and \<open>now\<close>
  is \<open>new Date().toISOString()\<close>.
\<close>

definition docData :: "jsobj \<Rightarrow> string \<Rightarrow> string \<Rightarrow> jsobj" where
  "docData payload newId now =
     ((Map.empty
        (''id'' := str newId,
         ''name'' := payload ''name'',
         ''description'' := nullish (payload ''description'') (str ''''),
         ''stock_quantity'' := payload ''stock_quantity'')
       ++ (if payload ''low_stock_threshold'' \<noteq> None
           then Map.empty(''low_stock_threshold'' := payload ''low_stock_threshold'')
           else Map.empty))
        (''createdAt'' := str now,
         ''updatedAt'' := str now))
     ++ extra_fields payload"

text \<open>
  \<open>createProduct(payload, collectionName)\<close>. The payload is an object, so the first test
  of the source (\<open>!payload || typeof payload !== 'object'\<close>) cannot fire. Every property
  of \<open>docData\<close> holds a value when the tests have passed, so \<open>docRef.set(docData)\<close>
  stores it as it is.
\<close>

definition createProduct ::
  "jsobj \<Rightarrow> string \<Rightarrow> string \<Rightarrow> string \<Rightarrow> firestore \<Rightarrow> (HttpError + jsobj) \<times> firestore" where
  "createProduct payload collectionName newId now db =
     (if \<not> truthy (payload ''name'') \<or> typeof (payload ''name'') \<noteq> ''string''
      then (Inl (HttpError 400 ''Product name is required''), db)
      else if \<not> isInteger (payload ''stock_quantity'') \<or> js_lt (payload ''stock_quantity'') (num 0)
      then (Inl (HttpError 400 ''stock_quantity must be an integer >= 0''), db)
      else if payload ''low_stock_threshold'' \<noteq> None \<and>
              (\<not> isInteger (payload ''low_stock_threshold'') \<or>
               js_lt (payload ''low_stock_threshold'') (num 0))
      then (Inl (HttpError 400 ''low_stock_threshold must be an integer >= 0 when provided''), db)
      else (Inr (docData payload newId now),
            doc_set db collectionName newId (docData payload newId now)))"

text \<open>\<open>getProductById(id, collectionName)\<close>; the result is \<open>{ id: snap.id, ...snap.data() }\<close>.\<close>

definition getProductById :: "string \<Rightarrow> string \<Rightarrow> firestore \<Rightarrow> HttpError + jsobj" where
  "getProductById pid collectionName db =
     (case doc_get db collectionName pid of
        None \<Rightarrow> Inl (HttpError 404 ''Product not found'')
      | Some data \<Rightarrow> Inr (Map.empty(''id'' := str pid) ++ data))"

text \<open>
  \<open>updateProduct(id, updates, collectionName)\<close>. The loop over \<open>allowed\<close> copies the
  fields of \<open>updates\<close> that are not \<open>undefined\<close> into a fresh \<open>payload\<close>.
\<close>

definition update_payload :: "jsobj \<Rightarrow> jsobj" where
  "update_payload updates = (\<lambda>k. if k \<in> set allowed then updates k else None)"

definition updateProduct ::
  "string \<Rightarrow> jsobj \<Rightarrow> string \<Rightarrow> string \<Rightarrow> firestore \<Rightarrow> (HttpError + jsobj) \<times> firestore" where
  "updateProduct pid updates collectionName now db =
     (let payload = update_payload updates in
      if payload ''stock_quantity'' \<noteq> None \<and>
         (\<not> isInteger (payload ''stock_quantity'') \<or> js_lt (payload ''stock_quantity'') (num 0))
      then (Inl (HttpError 400 ''stock_quantity must be an integer >= 0''), db)
      else if payload ''low_stock_threshold'' \<noteq> None \<and>
              (\<not> isInteger (payload ''low_stock_threshold'') \<or>
               js_lt (payload ''low_stock_threshold'') (num 0))
      then (Inl (HttpError 400 ''low_stock_threshold must be an integer >= 0''), db)
      else
        (let payload' = payload(''updatedAt'' := str now) in
         case doc_get db collectionName pid of
           None \<Rightarrow> (Inl (HttpError 404 ''Product not found''), db)
         | Some snap \<Rightarrow>
             (let db' = doc_update db collectionName pid payload' in
              (case doc_get db' collectionName pid of
                 None \<Rightarrow> (Inr (Map.empty(''id'' := str pid)), db')
               | Some data \<Rightarrow> (Inr (Map.empty(''id'' := str pid) ++ data), db')))))"

text \<open>\<open>deleteProduct(id, collectionName)\<close>.\<close>

definition deleteProduct ::
  "string \<Rightarrow> string \<Rightarrow> firestore \<Rightarrow> (HttpError + jsobj) \<times> firestore" where
  "deleteProduct pid collectionName db =
     (case doc_get db collectionName pid of
        None \<Rightarrow> (Inl (HttpError 404 ''Product not found''), db)
      | Some snap \<Rightarrow> (Inr (Map.empty(''id'' := str pid)), doc_delete db collectionName pid))"

text \<open>
  \<open>increaseStock(id, amount, collectionName)\<close>. The callback of \<open>db.runTransaction\<close>
  runs as one atomic step on the database.
\<close>

definition increaseStock ::
  "string \<Rightarrow> jsval \<Rightarrow> string \<Rightarrow> string \<Rightarrow> firestore \<Rightarrow> (HttpError + jsobj) \<times> firestore" where
  "increaseStock pid amount collectionName now db =
     (if \<not> isInteger amount \<or> js_le amount (num 0)
      then (Inl (HttpError 400 ''amount must be an integer > 0''), db)
      else case doc_get db collectionName pid of
        None \<Rightarrow> (Inl (HttpError 404 ''Product not found''), db)
      | Some data \<Rightarrow>
          (let current = nullish (data ''stock_quantity'') (num 0);
               updated = js_add current amount
           in (Inr (Map.empty(''id'' := str pid, ''stock_quantity'' := updated)),
               doc_update db collectionName pid
                 (Map.empty(''stock_quantity'' := updated, ''updatedAt'' := str now)))))"

text \<open>\<open>decreaseStock(id, amount, collectionName)\<close>.\<close>

definition decreaseStock ::
  "string \<Rightarrow> jsval \<Rightarrow> string \<Rightarrow> string \<Rightarrow> firestore \<Rightarrow> (HttpError + jsobj) \<times> firestore" where
  "decreaseStock pid amount collectionName now db =
     (if \<not> isInteger amount \<or> js_le amount (num 0)
      then (Inl (HttpError 400 ''amount must be an integer > 0''), db)
      else case doc_get db collectionName pid of
        None \<Rightarrow> (Inl (HttpError 404 ''Product not found''), db)
      | Some data \<Rightarrow>
          (let current = nullish (data ''stock_quantity'') (num 0) in
           if js_lt current amount
           then (Inl (HttpError 400 ''Insufficient stock''), db)
           else
             (let updated = js_sub current amount
              in (Inr (Map.empty(''id'' := str pid, ''stock_quantity'' := updated)),
                  doc_update db collectionName pid
                    (Map.empty(''stock_quantity'' := updated, ''updatedAt'' := str now))))))"

text \<open>
  \<open>listLowStock(collectionName)\<close>: the query, then the filter in memory; each item pushed
  is \<open>{ id: s.id, ...data }\<close>.
\<close>

definition listLowStock :: "string \<Rightarrow> firestore \<Rightarrow> jsobj list" where
  "listLowStock collectionName db =
     map (\<lambda>(pid, data). Map.empty(''id'' := str pid) ++ data)
       (filter (\<lambda>(pid, data).
            typeof (data ''low_stock_threshold'') = ''number'' \<and>
            typeof (data ''stock_quantity'') = ''number'' \<and>
            js_lt (data ''stock_quantity'') (data ''low_stock_threshold''))
          (where_not_null db collectionName ''low_stock_threshold''))"

section \<open>Request validation\<close>

text \<open>A number that is an integer and not negative: \<open>z.number().int().nonnegative()\<close>.\<close>

fun nonneg_integer :: "jsval \<Rightarrow> bool" where
  "nonneg_integer (Some (JNum (Fin q))) = (rat_of_int \<lfloor>q\<rfloor> = q \<and> 0 \<le> q)"
| "nonneg_integer _ = False"

text \<open>
  \<open>productCreateSchema\<close> of \<open>src/lib/validate.ts\<close>, with which the route
  \<open>POST /api/products\<close> validates a request body before it calls \<open>createProduct\<close>:
  \<open>name\<close> is a string of length at least one, \<open>description\<close> an optional string,
  \<open>stock_quantity\<close> a non-negative integer and \<open>low_stock_threshold\<close> an optional one.
  A successful parse returns the body without the keys that the schema does not name.
\<close>

definition schema_keys :: "string list" where
  "schema_keys = [''name'', ''description'', ''stock_quantity'', ''low_stock_threshold'']"

definition schema_check :: "jsobj \<Rightarrow> bool" where
  "schema_check body =
     ((case body ''name'' of Some (JStr s) \<Rightarrow> 1 \<le> length s | _ \<Rightarrow> False)
      \<and> (case body ''description'' of None \<Rightarrow> True | Some (JStr s) \<Rightarrow> True | _ \<Rightarrow> False)
      \<and> nonneg_integer (body ''stock_quantity'')
      \<and> (body ''low_stock_threshold'' = None \<or> nonneg_integer (body ''low_stock_threshold'')))"

definition strip_unknown :: "jsobj \<Rightarrow> jsobj" where
  "strip_unknown body = (\<lambda>k. if k \<in> set schema_keys then body k else None)"

definition productCreateSchema :: "jsobj \<Rightarrow> jsobj option" where
  "productCreateSchema body = (if schema_check body then Some (strip_unknown body) else None)"

section \<open>Store states\<close>

text \<open>The database before any operation: every collection is empty.\<close>

definition empty_db :: firestore where
  "empty_db = (\<lambda>collectionName. [])"

text \<open>
  The calls that change the database, with their arguments, and the state that each
  leaves behind, whether the call succeeds or fails. A store state is reachable when a
  sequence of calls produces it from the empty database.
\<close>

datatype operation =
    Create jsobj string string string
  | Update string jsobj string string
  | Delete string string
  | Increase string jsval string string
  | Decrease string jsval string string

fun apply_operation :: "operation \<Rightarrow> firestore \<Rightarrow> firestore" where
  "apply_operation (Create payload collectionName newId now) db =
     snd (createProduct payload collectionName newId now db)"
| "apply_operation (Update pid updates collectionName now) db =
     snd (updateProduct pid updates collectionName now db)"
| "apply_operation (Delete pid collectionName) db =
     snd (deleteProduct pid collectionName db)"
| "apply_operation (Increase pid amount collectionName now) db =
     snd (increaseStock pid amount collectionName now db)"
| "apply_operation (Decrease pid amount collectionName now) db =
     snd (decreaseStock pid amount collectionName now db)"

definition run :: "operation list \<Rightarrow> firestore \<Rightarrow> firestore" where
  "run ops db = fold apply_operation ops db"



section \<open>Example data\<close>

definition gadget :: jsobj where
  "gadget = Map.empty(''name'' := str ''Gadget'', ''stock_quantity'' := num 5,
     ''updatedAt'' := str ''t0'')"

definition gadget_db :: firestore where
  "gadget_db = doc_set empty_db ''products'' ''g1'' gadget"

definition bare :: jsobj where
  "bare = Map.empty(''name'' := str ''Bare'', ''updatedAt'' := str ''t0'')"

definition bare_db :: firestore where
  "bare_db = doc_set empty_db ''products'' ''b1'' bare"

definition widget :: jsobj where
  "widget = Map.empty(''name'' := str ''Widget'', ''stock_quantity'' := num 10,
     ''low_stock_threshold'' := num 5)"

definition scenario :: "operation list" where
  "scenario =
     [Create widget ''products'' ''p1'' ''t0'',
      Increase ''p1'' (num 5) ''products'' ''t1'',
      Decrease ''p1'' (num 999) ''products'' ''t2'']"

definition last_units :: operation where
  "last_units = Decrease ''p1'' (num 15) ''products'' ''t3''"

definition low_a :: jsobj where
  "low_a = Map.empty(''name'' := str ''A'', ''stock_quantity'' := num 3,
     ''low_stock_threshold'' := num 5)"

definition low_b :: jsobj where
  "low_b = Map.empty(''name'' := str ''B'', ''stock_quantity'' := num 5,
     ''low_stock_threshold'' := num 5)"

definition low_c :: jsobj where
  "low_c = Map.empty(''name'' := str ''C'', ''stock_quantity'' := num 0)"

definition low_db :: firestore where
  "low_db = empty_db(''products'' := [(''a'', low_a), (''b'', low_b), (''c'', low_c)])"

definition negative_update :: jsobj where
  "negative_update = Map.empty(''stock_quantity'' := num (- 1))"

definition rename_update :: jsobj where
  "rename_update = Map.empty(''name'' := str ''Gizmo'', ''id'' := str ''other'')"

definition custom_payload :: jsobj where
  "custom_payload = Map.empty(''name'' := str ''Widget'', ''stock_quantity'' := num 1,
     ''id'' := str ''mine'', ''createdAt'' := str ''1999'', ''colour'' := str ''red'')"


definition heavy :: jsobj where
  "heavy = Map.empty(''name'' := str ''Heavy'', ''stock_quantity'' := num (2 ^ 1023))"

definition overflow :: "operation list" where
  "overflow =
     [Create heavy ''products'' ''h1'' ''t0'',
      Increase ''h1'' (num (2 ^ 1023)) ''products'' ''t1'']"

definition big :: jsobj where
  "big = Map.empty(''name'' := str ''Big'', ''stock_quantity'' := num (2 ^ 53),
     ''updatedAt'' := str ''t0'')"

definition big_db :: firestore where
  "big_db = doc_set empty_db ''products'' ''b2'' big"

definition big_result :: jsobj where
  "big_result = Map.empty(''id'' := str ''b2'', ''stock_quantity'' := num (2 ^ 53))"

definition low_d :: jsobj where
  "low_d = Map.empty(''name'' := str ''D'', ''stock_quantity'' := num 7,
     ''low_stock_threshold'' := Some (JNum PInf))"

definition low_db_inf :: firestore where
  "low_db_inf = empty_db(''products'' := [(''b'', low_b), (''d'', low_d)])"

definition proto_payload :: jsobj where
  "proto_payload = Map.empty(''name'' := str ''Widget'', ''stock_quantity'' := num 1,
     ''__proto__'' := str ''x'')"

definition big_after :: jsobj where
  "big_after = big(''stock_quantity'' := num (2 ^ 53), ''updatedAt'' := str ''t1'')"

section \<open>Basic facts\<close>

subsection \<open>Doubles\<close>

lemma expo_up_bounds:
  "1 \<le> r \<Longrightarrow> 0 \<le> expo_up r \<and> 2 powi (expo_up r) \<le> r \<and> r < 2 powi (expo_up r + 1)"
proof (induction r rule: expo_up.induct)
  case (1 r)
  show ?case
  proof (cases "2 \<le> r")
    case True
    then have "1 \<le> r / 2" by simp
    with 1 True have ih: "0 \<le> expo_up (r / 2)" "2 powi (expo_up (r / 2)) \<le> r / 2"
      "r / 2 < 2 powi (expo_up (r / 2) + 1)" by auto
    have eq: "expo_up r = expo_up (r / 2) + 1"
      using True by (subst expo_up.simps) simp
    have "(2::rat) powi (expo_up (r / 2) + 1) = 2 powi (expo_up (r / 2)) * 2"
      by (simp add: power_int_add)
    moreover have "(2::rat) powi (expo_up (r / 2) + 1 + 1) = 2 powi (expo_up (r / 2) + 1) * 2"
      by (simp add: power_int_add)
    ultimately show ?thesis
      using ih eq by auto
  next
    case False
    then have "expo_up r = 0" by (subst expo_up.simps) simp
    with False 1 show ?thesis by simp
  qed
qed


lemma expo_down_bounds:
  "0 < r \<Longrightarrow> r < 1 \<Longrightarrow>
   expo_down r < 0 \<and> 2 powi (expo_down r) \<le> r \<and> r < 2 powi (expo_down r + 1)"
proof (induction r rule: expo_down.induct)
  case (1 r)
  have eq: "expo_down r = expo_down (r * 2) - 1"
    using 1 by (subst expo_down.simps) simp
  show ?case
  proof (cases "r * 2 < 1")
    case True
    with 1 have ih: "expo_down (r * 2) < 0" "2 powi (expo_down (r * 2)) \<le> r * 2"
      "r * 2 < 2 powi (expo_down (r * 2) + 1)" by auto
    have "(2::rat) powi (expo_down (r * 2)) = 2 powi (expo_down (r * 2) - 1) * 2"
      by (simp add: power_int_diff)
    moreover have "(2::rat) powi (expo_down (r * 2) + 1) = 2 powi (expo_down (r * 2)) * 2"
      by (simp add: power_int_add)
    ultimately show ?thesis
      using ih eq by auto
  next
    case False
    then have "expo_down (r * 2) = 0" by (subst expo_down.simps) simp
    with False 1 eq show ?thesis by (simp add: power_int_minus)
  qed
qed

lemma expo_bounds:
  assumes "r \<noteq> 0"
  shows "2 powi (expo r) \<le> \<bar>r\<bar> \<and> \<bar>r\<bar> < 2 powi (expo r + 1)"
proof (cases "1 \<le> \<bar>r\<bar>")
  case True
  then show ?thesis using expo_up_bounds [of "\<bar>r\<bar>"] by (simp add: expo_def)
next
  case False
  then show ?thesis using assms expo_down_bounds [of "\<bar>r\<bar>"] by (simp add: expo_def)
qed

lemma powi_two_mono: "a \<le> b \<Longrightarrow> (2::rat) powi a \<le> 2 powi b"
  by (rule power_int_increasing) simp_all

lemma expo_unique:
  assumes "2 powi e \<le> \<bar>r\<bar>" and "\<bar>r\<bar> < 2 powi (e + 1)"
  shows "expo r = e"
proof -
  have "r \<noteq> 0"
  proof
    assume "r = 0"
    with assms(1) have "(2::rat) powi e \<le> 0" by simp
    moreover have "(0::rat) < 2 powi e" by simp
    ultimately show False by linarith
  qed
  then have b: "2 powi (expo r) \<le> \<bar>r\<bar>" "\<bar>r\<bar> < 2 powi (expo r + 1)"
    using expo_bounds by blast+
  have "\<not> e < expo r"
  proof
    assume "e < expo r"
    then have "(2::rat) powi (e + 1) \<le> 2 powi (expo r)" by (intro powi_two_mono) simp
    with b(1) assms(2) show False by linarith
  qed
  moreover have "\<not> expo r < e"
  proof
    assume "expo r < e"
    then have "(2::rat) powi (expo r + 1) \<le> 2 powi e" by (intro powi_two_mono) simp
    with b(2) assms(1) show False by linarith
  qed
  ultimately show ?thesis by linarith
qed

lemma round_even_of_int: "round_even (rat_of_int z) = z"
  by (simp add: round_even_def)




lemma is_doubleI:
  assumes "2 powi e \<le> \<bar>r\<bar>" and "\<bar>r\<bar> < 2 powi (e + 1)" and "e \<le> 1023"
    and "r / 2 powi (max e (- 1022) - 52) = rat_of_int m"
  shows "is_double r"
proof -
  define u :: rat where "u = 2 powi (max e (- 1022) - 52)"
  have upos: "0 < u" by (simp add: u_def)
  have e: "expo r = e" using assms(1,2) by (rule expo_unique)
  have nz: "r \<noteq> 0"
  proof
    assume "r = 0"
    with assms(1) have "(2::rat) powi e \<le> 0" by simp
    moreover have "(0::rat) < 2 powi e" by simp
    ultimately show False by linarith
  qed
  have u: "ulp r = u" by (simp add: ulp_def e u_def)
  have quot: "r / u = rat_of_int m" using assms(4) by (simp only: u_def)
  then have scaled: "rat_of_int m * u = r"
    using upos by (simp add: field_simps)
  have "(2::rat) powi (e + 1) \<le> 2 powi 1024"
    using assms(3) by (intro powi_two_mono) simp
  also have "(2::rat) powi 1024 = overflow_bound"
    by (simp only: overflow_bound_def power_int_numeral)
  finally have small: "\<not> overflow_bound \<le> \<bar>r\<bar>" using assms(2) by linarith
  have "round_even (r / ulp r) = m"
    by (simp only: u quot round_even_of_int)
  then have "round_double r = Fin r"
    unfolding round_double_def Let_def
    by (simp only: u scaled nz small if_False)
  then show ?thesis by (simp only: is_double_def)
qed


lemma is_double_zero: "is_double 0"
  by (simp add: is_double_def round_double_def)

lemma safe_integer_is_double:
  assumes "\<bar>z\<bar> \<le> 2 ^ 53"
  shows "is_double (rat_of_int z)"
proof (cases "z = 0")
  case True
  then show ?thesis by (simp add: is_double_zero)
next
  case False
  define r where "r = rat_of_int z"
  have one: "1 \<le> \<bar>r\<bar>" using False by (simp add: r_def flip: of_int_abs)
  have top: "\<bar>r\<bar> \<le> 2 ^ 53" using assms by (simp add: r_def flip: of_int_abs of_int_le_iff)
  have nz: "r \<noteq> 0" using one by auto
  define e where "e = expo r"
  have low: "2 powi e \<le> \<bar>r\<bar>" and high: "\<bar>r\<bar> < 2 powi (e + 1)"
    using expo_bounds [OF nz] by (simp_all add: e_def)
  have e0: "0 \<le> e"
    using one expo_up_bounds [of "\<bar>r\<bar>"] by (simp add: e_def expo_def)
  have e53: "e \<le> 53"
  proof (rule ccontr)
    assume "\<not> e \<le> 53"
    then have "(2::rat) powi 54 \<le> 2 powi e" by (intro powi_two_mono) simp
    with low top show False by simp
  qed
  have m: "max e (- 1022) = e" using e0 by simp
  show ?thesis
  proof (cases "e = 53")
    case True
    with low top have "\<bar>r\<bar> = 2 ^ 53" by simp
    then have "\<bar>z\<bar> = 2 ^ 53" by (simp add: r_def flip: of_int_abs)
    then have z: "z = 2 ^ 53 \<or> z = - (2 ^ 53)" by linarith
    have quot: "r / 2 powi (max e (- 1022) - 52) = rat_of_int (z div 2)"
      using z by (auto simp: m True r_def)
    have "is_double r"
      by (rule is_doubleI [OF low high _ quot]) (use e53 in simp)
    then show ?thesis by (simp only: r_def)
  next
    case False
    with e53 have le: "e \<le> 52" by simp
    have "(2::rat) powi (e - 52) = 1 / 2 ^ nat (52 - e)"
      using le by (simp add: power_int_def field_simps)
    then have quot: "r / 2 powi (max e (- 1022) - 52) = rat_of_int (z * 2 ^ nat (52 - e))"
      by (simp add: m r_def)
    have "is_double r"
      by (rule is_doubleI [OF low high _ quot]) (use e53 in simp)
    then show ?thesis by (simp only: r_def)
  qed
qed

lemma fl_add_zero: "fl_add 0 b = Fin b"
  by (simp add: fl_add_def is_double_def)

lemma fl_add_exact: "is_double (a + b) \<Longrightarrow> fl_add a b = Fin (a + b)"
  by (simp add: fl_add_def is_double_def)

lemma fl_sub_exact: "is_double (a - b) \<Longrightarrow> fl_sub a b = Fin (a - b)"
  by (simp add: fl_sub_def is_double_def)



lemma floor_half: "\<lfloor>1 / 2 :: rat\<rfloor> = 0"
  by (rule floor_unique) simp_all

lemma round_even_half: "round_even (rat_of_int f + 1 / 2) = (if even f then f else f + 1)"
  by (simp add: round_even_def Let_def floor_half)

lemma round_double_tie: "round_double (2 ^ 53 + 1) = Fin (2 ^ 53)"
proof -
  define r :: rat where "r = 2 ^ 53 + 1"
  have e: "expo r = 53"
    by (rule expo_unique) (simp_all add: r_def)
  have u: "ulp r = 2"
    by (simp add: ulp_def e)
  have q: "r / 2 = rat_of_int (2 ^ 52) + 1 / 2"
    by (simp add: r_def)
  have "r / ulp r = rat_of_int (2 ^ 52) + 1 / 2"
    using q by (simp only: u)
  then have "round_even (r / ulp r) = round_even (rat_of_int (2 ^ 52) + 1 / 2)"
    by (rule arg_cong)
  moreover have "round_even (rat_of_int (2 ^ 52) + 1 / 2) = 2 ^ 52"
    by (subst round_even_half) simp
  ultimately have re: "round_even (r / ulp r) = 2 ^ 52"
    by (rule trans)
  have v: "rat_of_int (round_even (r / ulp r)) * ulp r = 2 ^ 53"
    by (simp only: re) (simp add: u)
  have nz: "r \<noteq> 0"
    by (simp add: r_def)
  have small: "\<not> overflow_bound \<le> \<bar>2 ^ 53\<bar>"
    by (simp add: overflow_bound_def)
  have "round_double r = Fin (2 ^ 53)"
    unfolding round_double_def Let_def
    by (simp only: v nz small if_False)
  then show ?thesis
    by (simp only: r_def)
qed

lemma fl_add_tie: "fl_add (2 ^ 53) 1 = Fin (2 ^ 53)"
proof -
  have "is_double (rat_of_int (2 ^ 53))" by (rule safe_integer_is_double) simp
  then have a: "is_double (2 ^ 53)" by simp
  have "is_double (rat_of_int 1)" by (rule safe_integer_is_double) simp
  then have b: "is_double 1" by simp
  show ?thesis
    using a b round_double_tie by (simp add: fl_add_def)
qed

lemma is_double_top: "is_double (2 ^ 1023)"
proof (rule is_doubleI [where e = 1023 and m = "2 ^ 52"])
  show "(2::rat) powi 1023 \<le> \<bar>2 ^ 1023\<bar>" by simp
  show "\<bar>2 ^ 1023 :: rat\<bar> < 2 powi (1023 + 1)" by simp
  show "(1023::int) \<le> 1023" by simp
  have "(2::rat) ^ 1023 = 2 ^ 52 * 2 ^ 971" by (simp flip: power_add)
  then show "(2::rat) ^ 1023 / 2 powi (max 1023 (- 1022) - 52) = rat_of_int (2 ^ 52)"
    by simp
qed

lemma round_double_overflow: "round_double (2 ^ 1023 + 2 ^ 1023) = PInf"
proof -
  define r :: rat where "r = 2 ^ 1024"
  have s: "(2::rat) ^ 1023 + 2 ^ 1023 = r"
    by (simp add: r_def)
  have e: "expo r = 1024"
    by (rule expo_unique) (simp_all add: r_def)
  have u: "ulp r = 2 ^ 972"
    by (simp add: ulp_def e)
  have factor: "r = rat_of_int (2 ^ 52) * 2 ^ 972"
    by (simp add: r_def flip: power_add)
  then have "r / 2 ^ 972 = rat_of_int (2 ^ 52)"
    by simp
  then have "r / ulp r = rat_of_int (2 ^ 52)"
    by (simp only: u)
  then have "round_even (r / ulp r) = round_even (rat_of_int (2 ^ 52))"
    by (rule arg_cong)
  then have re: "round_even (r / ulp r) = 2 ^ 52"
    by (simp only: round_even_of_int)
  have v: "rat_of_int (round_even (r / ulp r)) * ulp r = r"
    by (simp only: re) (simp only: u factor [symmetric])
  have nz: "r \<noteq> 0" and pos: "0 < r"
    by (simp_all add: r_def)
  have big: "overflow_bound \<le> \<bar>r\<bar>"
    by (simp add: overflow_bound_def r_def)
  have "round_double r = PInf"
    unfolding round_double_def Let_def
    by (simp only: v nz big pos if_False if_True)
  then show ?thesis
    by (simp only: s)
qed

lemma fl_add_overflow: "fl_add (2 ^ 1023) (2 ^ 1023) = PInf"
  using is_double_top round_double_overflow by (simp only: fl_add_def simp_thms if_True)

subsection \<open>Numbers\<close>

lemma is_int_iff: "(rat_of_int \<lfloor>r\<rfloor> = r) = (r \<in> \<int>)"
  by (metis Ints_cases Ints_of_int floor_of_int)

lemma nonneg_integer_iff: "nonneg_integer v = (isInteger v \<and> \<not> js_lt v (num 0))"
  by (cases v rule: isInteger.cases) auto

lemma nonneg_integerE:
  assumes "nonneg_integer v"
  obtains q where "v = num q" "q \<in> \<int>" "0 \<le> q"
  using assms by (cases v rule: isInteger.cases) (auto simp: is_int_iff)

lemma nonneg_integerI: "q \<in> \<int> \<Longrightarrow> 0 \<le> q \<Longrightarrow> nonneg_integer (num q)"
  by (simp add: is_int_iff)


lemma typeof_number: "typeof v = ''number'' \<longleftrightarrow> (\<exists>n. v = Some (JNum n))"
  by (cases v rule: typeof.cases) simp_all







lemma js_add_exact: "is_double (a + b) \<Longrightarrow> js_add (num a) (num b) = num (a + b)"
  by (simp add: fl_add_exact)

lemma js_sub_exact: "is_double (a - b) \<Longrightarrow> js_sub (num a) (num b) = num (a - b)"
  by (simp add: fl_sub_exact)

lemma js_add_zero: "js_add (num 0) (num b) = num b"
  by (simp add: fl_add_zero)

subsection \<open>Documents\<close>

lemma doc_get_doc_set: "doc_get (doc_set db c pid data) c pid = Some data"
  by (simp add: doc_get_def doc_set_def update_conv')

lemma doc_get_doc_update:
  "doc_get db c pid = Some data \<Longrightarrow>
   doc_get (doc_update db c pid fields) c pid = Some (data ++ fields)"
  by (simp add: doc_get_def doc_update_def update_conv')

lemma doc_get_doc_update_other:
  "(c', pid') \<noteq> (c, pid) \<Longrightarrow>
   doc_get (doc_update db c pid fields) c' pid' = doc_get db c' pid'"
  by (auto simp: doc_get_def doc_update_def update_conv' split: option.splits)

lemma with_id_same: "data ''id'' = str pid \<Longrightarrow> Map.empty(''id'' := str pid) ++ data = data"
  by (auto simp: map_add_def fun_eq_iff split: option.splits)

lemma merge_adjustment:
  "data ++ Map.empty(''stock_quantity'' := Some v, ''updatedAt'' := str now) =
     data(''stock_quantity'' := Some v, ''updatedAt'' := str now)"
  by (auto simp: map_add_def fun_eq_iff)

lemma gadget_stored: "doc_get gadget_db ''products'' ''g1'' = Some gadget"
  by (simp add: gadget_db_def doc_get_doc_set)

lemma gadget_quantity: "gadget ''stock_quantity'' = num 5"
  by (simp add: gadget_def)

lemma bare_stored: "doc_get bare_db ''products'' ''b1'' = Some bare"
  by (simp add: bare_db_def doc_get_doc_set)

lemma bare_quantity: "bare ''stock_quantity'' = None"
  by (simp add: bare_def)

lemma big_stored: "doc_get big_db ''products'' ''b2'' = Some big"
  by (simp add: big_db_def doc_get_doc_set)

lemma big_quantity: "big ''stock_quantity'' = num (2 ^ 53)"
  by (simp add: big_def)

subsection \<open>The document that \<open>createProduct\<close> writes\<close>

lemma docData_stock_quantity:
  "docData payload newId now ''stock_quantity'' = payload ''stock_quantity''"
  by (simp add: docData_def extra_fields_def allowed_def map_add_def)

lemma docData_named:
  "docData payload newId now ''name'' = payload ''name''"
  "docData payload newId now ''description'' = nullish (payload ''description'') (str '''')"
  "docData payload newId now ''low_stock_threshold'' = payload ''low_stock_threshold''"
  by (simp_all add: docData_def extra_fields_def allowed_def map_add_def split: option.splits)

lemma docData_extra:
  "k \<notin> set allowed \<Longrightarrow> k \<noteq> ''__proto__'' \<Longrightarrow> payload k \<noteq> None \<Longrightarrow>
   docData payload newId now k = payload k"
  by (cases "payload k") (simp_all add: docData_def extra_fields_def map_add_def)

lemma docData_proto: "docData payload newId now ''__proto__'' = None"
  by (simp add: docData_def extra_fields_def map_add_def)

lemma docData_generated:
  "payload ''id'' = None \<Longrightarrow> docData payload newId now ''id'' = str newId"
  "payload ''createdAt'' = None \<Longrightarrow> docData payload newId now ''createdAt'' = str now"
  "payload ''updatedAt'' = None \<Longrightarrow> docData payload newId now ''updatedAt'' = str now"
  by (simp_all add: docData_def extra_fields_def allowed_def map_add_def)

lemma createProduct_accepts:
  "truthy (payload ''name'') \<Longrightarrow> typeof (payload ''name'') = ''string'' \<Longrightarrow>
   nonneg_integer (payload ''stock_quantity'') \<Longrightarrow>
   payload ''low_stock_threshold'' = None \<or> nonneg_integer (payload ''low_stock_threshold'') \<Longrightarrow>
   createProduct payload c newId now db =
     (Inr (docData payload newId now), doc_set db c newId (docData payload newId now))"
  by (auto simp: createProduct_def nonneg_integer_iff)

lemma createProduct_rejects_iff:
  assumes "truthy (payload ''name'')" and "typeof (payload ''name'') = ''string''"
  shows "isl (fst (createProduct payload c newId now db)) \<longleftrightarrow>
     \<not> (nonneg_integer (payload ''stock_quantity'')
        \<and> (payload ''low_stock_threshold'' = None \<or>
             nonneg_integer (payload ''low_stock_threshold'')))"
  using assms by (auto simp: createProduct_def nonneg_integer_iff)

subsection \<open>The fields that \<open>updateProduct\<close> writes\<close>

lemma update_payload_allowed:
  "update_payload updates ''stock_quantity'' = updates ''stock_quantity''"
  "update_payload updates ''low_stock_threshold'' = updates ''low_stock_threshold''"
  by (simp_all add: update_payload_def allowed_def)

lemma merged_update:
  "(data ++ update_payload updates)(''updatedAt'' := str now) =
     (\<lambda>k. if k = ''updatedAt'' then str now
          else if k \<in> set allowed \<and> updates k \<noteq> None then updates k else data k)"
  by (rule ext) (simp add: map_add_def update_payload_def split: option.splits)

lemma updateProduct_rejects:
  assumes "\<not> ((updates ''stock_quantity'' = None \<or> nonneg_integer (updates ''stock_quantity''))
             \<and> (updates ''low_stock_threshold'' = None \<or>
                  nonneg_integer (updates ''low_stock_threshold'')))"
  shows "\<exists>msg. updateProduct pid updates c now db = (Inl (HttpError 400 msg), db)"
  using assms
  by (auto simp: updateProduct_def Let_def update_payload_allowed nonneg_integer_iff)

lemma updateProduct_accepts:
  assumes "updates ''stock_quantity'' = None \<or> nonneg_integer (updates ''stock_quantity'')"
    and "updates ''low_stock_threshold'' = None \<or>
         nonneg_integer (updates ''low_stock_threshold'')"
  shows "updateProduct pid updates c now db =
     (case doc_get db c pid of
        None \<Rightarrow> (Inl (HttpError 404 ''Product not found''), db)
      | Some data \<Rightarrow>
          (Inr (Map.empty(''id'' := str pid) ++
                (data ++ (update_payload updates)(''updatedAt'' := str now))),
           doc_update db c pid ((update_payload updates)(''updatedAt'' := str now))))"
proof (cases "doc_get db c pid")
  case None
  with assms show ?thesis
    by (auto simp: updateProduct_def Let_def update_payload_allowed nonneg_integer_iff)
next
  case (Some data)
  then have "doc_get (doc_update db c pid ((update_payload updates)(''updatedAt'' := str now))) c pid
      = Some (data ++ (update_payload updates)(''updatedAt'' := str now))"
    by (rule doc_get_doc_update)
  with assms Some show ?thesis
    by (auto simp: updateProduct_def Let_def update_payload_allowed nonneg_integer_iff)
qed

subsection \<open>Every operation keeps the quantity invariant\<close>
















subsection \<open>Runs on the example data\<close>
lemma big_after_stored:
  "doc_get (doc_update big_db ''products'' ''b2''
      (Map.empty(''stock_quantity'' := num (2 ^ 53), ''updatedAt'' := str ''t1'')))
      ''products'' ''b2'' = Some big_after"
  unfolding big_after_def
  by (simp only: doc_get_doc_update [OF big_stored] merge_adjustment)

lemma big_call:
  "increaseStock ''b2'' (num 1) ''products'' ''t1'' big_db =
     (Inr big_result,
      doc_update big_db ''products'' ''b2''
        (Map.empty(''stock_quantity'' := num (2 ^ 53), ''updatedAt'' := str ''t1'')))"
  using fl_add_tie
  by (simp add: increaseStock_def Let_def big_stored big_quantity big_result_def)


lemma is_double_small: "is_double 0" "is_double 1" "is_double 4" "is_double 5" "is_double 10"
  "is_double 15" "is_double 999"
  using safe_integer_is_double [of 0] safe_integer_is_double [of 1]
    safe_integer_is_double [of 4] safe_integer_is_double [of 5] safe_integer_is_double [of 10]
    safe_integer_is_double [of 15] safe_integer_is_double [of 999]
  by simp_all

lemma scenario_final_state:
  "map_option (\<lambda>data. (data ''stock_quantity'', data ''updatedAt''))
     (doc_get (apply_operation last_units (run scenario empty_db)) ''products'' ''p1'') =
   Some (num 0, str ''t3'')"
proof -
  have sum: "fl_add 10 5 = Fin 15"
    using fl_add_exact [of 10 5] is_double_small by simp
  have diff: "fl_sub 15 15 = Fin 0"
    using fl_sub_exact [of 15 15] is_double_small by simp
  show ?thesis
    by (simp add: run_def scenario_def last_units_def widget_def empty_db_def createProduct_def
        docData_def extra_fields_def allowed_def increaseStock_def decreaseStock_def doc_get_def
        doc_set_def doc_update_def Let_def map_add_def sum diff)
qed

lemma overflow_final_state:
  "map_option (\<lambda>data. data ''stock_quantity'')
     (doc_get (run overflow empty_db) ''products'' ''h1'') = Some (Some (JNum PInf))"
proof -
  have whole: "rat_of_int \<lfloor>2 ^ 1023 :: rat\<rfloor> = 2 ^ 1023"
    by (metis floor_of_int of_int_numeral of_int_power)
  have positive: "\<not> (2 ^ 1023 :: rat) \<le> 0" "\<not> (2 ^ 1023 :: rat) < 0"
    by simp_all
  have created: "createProduct heavy ''products'' ''h1'' ''t0'' empty_db =
      (Inr (docData heavy ''h1'' ''t0''),
       doc_set empty_db ''products'' ''h1'' (docData heavy ''h1'' ''t0''))"
    by (rule createProduct_accepts) (simp_all add: heavy_def whole)
  have field: "docData heavy ''h1'' ''t0'' ''stock_quantity'' = num (2 ^ 1023)"
    by (simp add: docData_stock_quantity heavy_def)
  have increased: "snd (increaseStock ''h1'' (num (2 ^ 1023)) ''products'' ''t1''
      (doc_set empty_db ''products'' ''h1'' (docData heavy ''h1'' ''t0''))) =
      doc_update (doc_set empty_db ''products'' ''h1'' (docData heavy ''h1'' ''t0''))
        ''products'' ''h1''
        (Map.empty(''stock_quantity'' := Some (JNum PInf), ''updatedAt'' := str ''t1''))"
    using fl_add_overflow
    by (simp add: increaseStock_def Let_def doc_get_doc_set field whole positive)
  have "run overflow empty_db =
      snd (increaseStock ''h1'' (num (2 ^ 1023)) ''products'' ''t1''
        (doc_set empty_db ''products'' ''h1'' (docData heavy ''h1'' ''t0'')))"
    by (simp only: run_def overflow_def fold.simps comp_apply id_apply apply_operation.simps
        created snd_conv)
  then have final: "run overflow empty_db =
      doc_update (doc_set empty_db ''products'' ''h1'' (docData heavy ''h1'' ''t0''))
        ''products'' ''h1''
        (Map.empty(''stock_quantity'' := Some (JNum PInf), ''updatedAt'' := str ''t1''))"
    by (simp only: increased)
  have "doc_get (run overflow empty_db) ''products'' ''h1'' =
      Some ((docData heavy ''h1'' ''t0'')
        (''stock_quantity'' := Some (JNum PInf), ''updatedAt'' := str ''t1''))"
    by (simp only: final doc_get_doc_update [OF doc_get_doc_set] merge_adjustment)
  then show ?thesis
    by simp
qed

section \<open>Insufficient stock\<close>

text \<open>
  C1. For a stored product whose \<open>stock_quantity\<close> is the number \<open>q\<close> and a strictly
  positive integer amount \<open>n\<close> with \<open>q < n\<close>, \<open>decreaseStock\<close> fails with the error
  \<open>HttpError 400 ''Insufficient stock''\<close> and returns the database it was given: the
  stored record, its \<open>stock_quantity\<close> and its \<open>updatedAt\<close> are untouched.
\<close>

theorem decreaseStock_insufficient:
  assumes "doc_get db collectionName pid = Some data"
    and "data ''stock_quantity'' = num q"
    and "0 < n"
    and "q < rat_of_int n"
  shows "decreaseStock pid (num (rat_of_int n)) collectionName now db =
           (Inl (HttpError 400 ''Insufficient stock''), db)"
  using assms by (simp add: decreaseStock_def)

theorem decreaseStock_insufficient_witness:
  "doc_get gadget_db ''products'' ''g1'' = Some gadget
   \<and> gadget ''stock_quantity'' = num 5
   \<and> decreaseStock ''g1'' (num 7) ''products'' ''t1'' gadget_db =
       (Inl (HttpError 400 ''Insufficient stock''), gadget_db)"
  using decreaseStock_insufficient [OF gadget_stored gadget_quantity, of 7 "''t1''"]
    gadget_stored gadget_quantity
  by simp

section \<open>The quantity is never negative\<close>



section \<open>Successful adjustments\<close>

text \<open>
  C3, as stated, fails where the exact sum is no double: \<open>current + amount\<close> is an
  addition of doubles, which returns the double nearest to the exact sum. On a record
  with quantity \<open>2 ^ 53\<close>, \<open>increaseStock\<close> by 1 returns and stores \<open>2 ^ 53\<close>, not
  \<open>2 ^ 53 + 1\<close>.
\<close>

theorem increaseStock_rounds_counterexample:
  "doc_get big_db ''products'' ''b2'' = Some big
   \<and> big ''stock_quantity'' = num (2 ^ 53)
   \<and> fst (increaseStock ''b2'' (num 1) ''products'' ''t1'' big_db) = Inr big_result
   \<and> doc_get (snd (increaseStock ''b2'' (num 1) ''products'' ''t1'' big_db)) ''products'' ''b2'' =
       Some big_after
   \<and> big_result ''stock_quantity'' = num (2 ^ 53)
   \<and> big_after ''stock_quantity'' = num (2 ^ 53)
   \<and> num (2 ^ 53) \<noteq> num (2 ^ 53 + 1)"
proof -
  have returned: "fst (increaseStock ''b2'' (num 1) ''products'' ''t1'' big_db) = Inr big_result"
    by (simp only: big_call fst_conv)
  have kept: "doc_get (snd (increaseStock ''b2'' (num 1) ''products'' ''t1'' big_db))
      ''products'' ''b2'' = Some big_after"
    by (simp only: big_call snd_conv big_after_stored)
  have fields: "big_result ''stock_quantity'' = num (2 ^ 53)"
    "big_after ''stock_quantity'' = num (2 ^ 53)"
    by (simp_all add: big_result_def big_after_def)
  have differ: "num (2 ^ 53) \<noteq> num (2 ^ 53 + 1)"
    by simp
  show ?thesis
    by (intro conjI big_stored big_quantity returned kept fields differ)
qed

text \<open>
  C3, amended. For a stored product whose \<open>stock_quantity\<close> is the number \<open>q\<close> and a
  strictly positive integer amount \<open>n\<close>: when \<open>q + n\<close> is a double (as every integer
  of absolute value at most \<open>2 ^ 53\<close> is), \<open>increaseStock\<close> returns exactly the object
  \<open>{id, stock_quantity: q + n}\<close> and the stored record becomes the old one with
  \<open>stock_quantity = q + n\<close> and \<open>updatedAt\<close> set to the time of the call; when
  \<open>n \<le> q\<close> and \<open>q - n\<close> is a double, \<open>decreaseStock\<close> does the same with \<open>q - n\<close>.
\<close>

theorem adjust_stock_success:
  assumes "doc_get db c pid = Some data"
    and "data ''stock_quantity'' = num q"
    and "0 < n"
  shows "(is_double (q + rat_of_int n) \<longrightarrow>
           fst (increaseStock pid (num (rat_of_int n)) c now db) =
             Inr (Map.empty(''id'' := str pid, ''stock_quantity'' := num (q + rat_of_int n)))
         \<and> doc_get (snd (increaseStock pid (num (rat_of_int n)) c now db)) c pid =
             Some (data(''stock_quantity'' := num (q + rat_of_int n), ''updatedAt'' := str now)))
       \<and> (rat_of_int n \<le> q \<and> is_double (q - rat_of_int n) \<longrightarrow>
           fst (decreaseStock pid (num (rat_of_int n)) c now db) =
             Inr (Map.empty(''id'' := str pid, ''stock_quantity'' := num (q - rat_of_int n)))
         \<and> doc_get (snd (decreaseStock pid (num (rat_of_int n)) c now db)) c pid =
             Some (data(''stock_quantity'' := num (q - rat_of_int n), ''updatedAt'' := str now)))"
proof -
  have inc: "increaseStock pid (num (rat_of_int n)) c now db =
           (Inr (Map.empty(''id'' := str pid, ''stock_quantity'' := num (q + rat_of_int n))),
            doc_update db c pid
              (Map.empty(''stock_quantity'' := num (q + rat_of_int n), ''updatedAt'' := str now)))"
    if "is_double (q + rat_of_int n)"
    using assms that by (simp add: increaseStock_def Let_def fl_add_exact)
  have dec: "decreaseStock pid (num (rat_of_int n)) c now db =
             (Inr (Map.empty(''id'' := str pid, ''stock_quantity'' := num (q - rat_of_int n))),
              doc_update db c pid
                (Map.empty(''stock_quantity'' := num (q - rat_of_int n), ''updatedAt'' := str now)))"
    if "rat_of_int n \<le> q" and "is_double (q - rat_of_int n)"
    using assms that by (simp add: decreaseStock_def Let_def fl_sub_exact)
  show ?thesis
    using inc dec assms(1) by (simp add: doc_get_doc_update merge_adjustment)
qed

theorem adjust_stock_success_witness:
  "fst (increaseStock ''g1'' (num 4) ''products'' ''t1'' gadget_db) =
     Inr (Map.empty(''id'' := str ''g1'', ''stock_quantity'' := num 9))
   \<and> doc_get (snd (increaseStock ''g1'' (num 4) ''products'' ''t1'' gadget_db)) ''products'' ''g1'' =
       Some (gadget(''stock_quantity'' := num 9, ''updatedAt'' := str ''t1''))
   \<and> fst (decreaseStock ''g1'' (num 4) ''products'' ''t1'' gadget_db) =
       Inr (Map.empty(''id'' := str ''g1'', ''stock_quantity'' := num 1))
   \<and> doc_get (snd (decreaseStock ''g1'' (num 4) ''products'' ''t1'' gadget_db)) ''products'' ''g1'' =
       Some (gadget(''stock_quantity'' := num 1, ''updatedAt'' := str ''t1''))"
proof -
  have sum: "is_double (5 + rat_of_int 4)"
    using safe_integer_is_double [of 9] by simp
  have diff: "rat_of_int 4 \<le> 5 \<and> is_double (5 - rat_of_int 4)"
    using safe_integer_is_double [of 1] by simp
  show ?thesis
    using adjust_stock_success [OF gadget_stored gadget_quantity, of 4 "''t1''"] sum diff
    by simp
qed

section \<open>Validation of the amount\<close>

text \<open>
  C4. For every id and every amount that is not a strictly positive integer (zero, a
  negative number, a number with a fractional part, or a value that is no number at
  all), \<open>increaseStock\<close> and \<open>decreaseStock\<close> fail with
  \<open>HttpError 400 ''amount must be an integer > 0''\<close>, whatever the database holds, and
  return the database unchanged.
\<close>

theorem adjust_stock_validation:
  assumes "\<not> (\<exists>n::int. 0 < n \<and> amount = num (rat_of_int n))"
  shows "increaseStock pid amount c now db =
           (Inl (HttpError 400 ''amount must be an integer > 0''), db)
       \<and> decreaseStock pid amount c now db =
           (Inl (HttpError 400 ''amount must be an integer > 0''), db)"
proof -
  have "\<not> isInteger amount \<or> js_le amount (num 0)"
  proof (cases amount rule: isInteger.cases)
    case (1 r)
    show ?thesis
    proof (cases "rat_of_int \<lfloor>r\<rfloor> = r")
      case True
      with assms 1 have "\<not> 0 < \<lfloor>r\<rfloor>" by metis
      then have "r \<le> 0" using True by (metis not_less of_int_le_0_iff)
      with 1 show ?thesis by simp
    next
      case False
      with 1 show ?thesis by simp
    qed
  qed simp_all
  then show ?thesis
    by (simp add: increaseStock_def decreaseStock_def)
qed

theorem adjust_stock_validation_witness:
  "increaseStock ''g1'' (num 0) ''products'' ''t1'' gadget_db =
     (Inl (HttpError 400 ''amount must be an integer > 0''), gadget_db)
   \<and> decreaseStock ''g1'' (num (- 3)) ''products'' ''t1'' gadget_db =
     (Inl (HttpError 400 ''amount must be an integer > 0''), gadget_db)
   \<and> decreaseStock ''g1'' (num (1 / 2)) ''products'' ''t1'' gadget_db =
     (Inl (HttpError 400 ''amount must be an integer > 0''), gadget_db)
   \<and> increaseStock ''g1'' (str ''5'') ''products'' ''t1'' gadget_db =
     (Inl (HttpError 400 ''amount must be an integer > 0''), gadget_db)"
proof -
  have zero: "\<not> (\<exists>n::int. 0 < n \<and> num 0 = num (rat_of_int n))"
    by simp
  have negative: "\<not> (\<exists>n::int. 0 < n \<and> num (- 3) = num (rat_of_int n))"
    by auto
  have half: "\<not> (\<exists>n::int. 0 < n \<and> num (1 / 2) = num (rat_of_int n))"
    by auto
  have nonnumber: "\<not> (\<exists>n::int. 0 < n \<and> str ''5'' = num (rat_of_int n))"
    by simp
  show ?thesis
    using adjust_stock_validation [OF zero, of "''g1''" "''products''" "''t1''" gadget_db]
      adjust_stock_validation [OF negative, of "''g1''" "''products''" "''t1''" gadget_db]
      adjust_stock_validation [OF half, of "''g1''" "''products''" "''t1''" gadget_db]
      adjust_stock_validation [OF nonnumber, of "''g1''" "''products''" "''t1''" gadget_db]
    by simp
qed

section \<open>The low-stock list\<close>

text \<open>
  C5. \<open>listLowStock\<close> returns, for every store state, exactly the stored records (each
  with its \<open>id\<close>) whose \<open>low_stock_threshold\<close> is present as a number \<open>b\<close> and whose
  \<open>stock_quantity\<close> is a number \<open>a\<close> with \<open>a < b\<close>, the comparison being strict: a
  record whose quantity equals its threshold is left out, and so is every record without
  a threshold, whatever its quantity.
\<close>

theorem listLowStock_exact:
  "listLowStock c db =
     map (\<lambda>(pid, data). Map.empty(''id'' := str pid) ++ data)
       (filter (\<lambda>(pid, data). \<exists>a b. data ''stock_quantity'' = Some (JNum a) \<and>
                   data ''low_stock_threshold'' = Some (JNum b) \<and> num_lt a b) (db c))"
proof -
  have "(d ''low_stock_threshold'' \<noteq> None \<and> d ''low_stock_threshold'' \<noteq> Some JNull) \<and>
        typeof (d ''low_stock_threshold'') = ''number'' \<and>
        typeof (d ''stock_quantity'') = ''number'' \<and>
        js_lt (d ''stock_quantity'') (d ''low_stock_threshold'')
      \<longleftrightarrow> (\<exists>a b. d ''stock_quantity'' = Some (JNum a) \<and>
             d ''low_stock_threshold'' = Some (JNum b) \<and> num_lt a b)"
    for d :: jsobj
    by (auto simp: typeof_number)
  then show ?thesis
    by (simp add: listLowStock_def where_not_null_def case_prod_unfold conj_commute
        conj_left_commute cong: filter_cong)
qed

theorem listLowStock_exact_witness:
  "listLowStock ''products'' low_db = [Map.empty(''id'' := str ''a'') ++ low_a]
   \<and> listLowStock ''products'' low_db_inf = [Map.empty(''id'' := str ''d'') ++ low_d]"
  using listLowStock_exact [of "''products''" low_db]
    listLowStock_exact [of "''products''" low_db_inf]
  by (simp add: low_db_def low_db_inf_def low_a_def low_b_def low_c_def low_d_def empty_db_def)

section \<open>Two decreases, one after the other\<close>

text \<open>
  Each \<open>db.runTransaction\<close> callback is one atomic step here, so two calls can only run
  one after the other. On a record with quantity 5, the first \<open>decreaseStock\<close> by 4
  succeeds and leaves 1; the second, run on the state the first one left, fails with
  \<open>Insufficient stock\<close> and changes nothing. Both calls being the same, this is the
  outcome of either order.
\<close>

lemma decrease_twice_in_sequence:
  assumes "doc_get db c pid = Some data"
    and "data ''stock_quantity'' = num 5"
  shows "fst (decreaseStock pid (num 4) c t1 db) =
           Inr (Map.empty(''id'' := str pid, ''stock_quantity'' := num 1))
       \<and> decreaseStock pid (num 4) c t2 (snd (decreaseStock pid (num 4) c t1 db)) =
           (Inl (HttpError 400 ''Insufficient stock''), snd (decreaseStock pid (num 4) c t1 db))
       \<and> doc_get (snd (decreaseStock pid (num 4) c t1 db)) c pid =
           Some (data(''stock_quantity'' := num 1, ''updatedAt'' := str t1))"
proof -
  have diff: "fl_sub 5 4 = Fin 1"
    using fl_sub_exact [of 5 4] is_double_small by simp
  have once: "decreaseStock pid (num 4) c t1 db =
      (Inr (Map.empty(''id'' := str pid, ''stock_quantity'' := num 1)),
       doc_update db c pid (Map.empty(''stock_quantity'' := num 1, ''updatedAt'' := str t1)))"
    using assms by (simp add: decreaseStock_def Let_def diff)
  have after: "doc_get (doc_update db c pid
        (Map.empty(''stock_quantity'' := num 1, ''updatedAt'' := str t1))) c pid =
      Some (data(''stock_quantity'' := num 1, ''updatedAt'' := str t1))"
    using assms(1) by (simp add: doc_get_doc_update merge_adjustment)
  have again: "decreaseStock pid (num 4) c t2
        (doc_update db c pid (Map.empty(''stock_quantity'' := num 1, ''updatedAt'' := str t1))) =
      (Inl (HttpError 400 ''Insufficient stock''),
       doc_update db c pid (Map.empty(''stock_quantity'' := num 1, ''updatedAt'' := str t1)))"
    using after by (simp add: decreaseStock_def Let_def)
  show ?thesis
    by (simp add: once after again)
qed

section \<open>Create, then get\<close>

text \<open>
  C7. A valid creation payload \<open>p\<close> is one that \<open>productCreateSchema\<close> returns for a
  request body. For every such \<open>p\<close>, \<open>createProduct\<close> succeeds, the record it returns
  carries the generated id, and \<open>getProductById\<close> on that id yields that same record;
  its \<open>name\<close>, \<open>stock_quantity\<close> and \<open>low_stock_threshold\<close> are those of \<open>p\<close> (the
  threshold absent when \<open>p\<close> has none), its \<open>description\<close> is that of \<open>p\<close>, or the empty
  string when \<open>p\<close> has none, and \<open>id\<close>, \<open>createdAt\<close> and \<open>updatedAt\<close> hold the generated
  id and the time of the call.
\<close>

theorem create_get_roundtrip:
  assumes "productCreateSchema body = Some p"
  shows "fst (createProduct p c newId now db) = Inr (docData p newId now)
       \<and> docData p newId now ''id'' = str newId
       \<and> getProductById newId c (snd (createProduct p c newId now db)) = Inr (docData p newId now)
       \<and> docData p newId now ''name'' = p ''name''
       \<and> docData p newId now ''description'' =
           (if p ''description'' = None then str '''' else p ''description'')
       \<and> docData p newId now ''stock_quantity'' = p ''stock_quantity''
       \<and> docData p newId now ''low_stock_threshold'' = p ''low_stock_threshold''
       \<and> docData p newId now ''createdAt'' = str now
       \<and> docData p newId now ''updatedAt'' = str now"
proof -
  from assms have ok: "schema_check body" and p: "p = strip_unknown body"
    by (simp_all add: productCreateSchema_def split: if_splits)
  have fields: "p ''name'' = body ''name''" "p ''description'' = body ''description''"
    "p ''stock_quantity'' = body ''stock_quantity''"
    "p ''low_stock_threshold'' = body ''low_stock_threshold''"
    by (simp_all add: p strip_unknown_def schema_keys_def)
  have noextra: "p ''id'' = None" "p ''createdAt'' = None" "p ''updatedAt'' = None"
    by (simp_all add: p strip_unknown_def schema_keys_def)
  from ok have name: "case p ''name'' of Some (JStr s) \<Rightarrow> 1 \<le> length s | _ \<Rightarrow> False"
    and descr: "case p ''description'' of None \<Rightarrow> True | Some (JStr s) \<Rightarrow> True | _ \<Rightarrow> False"
    and pstock: "nonneg_integer (p ''stock_quantity'')"
    and pthresh: "p ''low_stock_threshold'' = None \<or> nonneg_integer (p ''low_stock_threshold'')"
    by (simp_all add: schema_check_def fields)
  have pname: "truthy (p ''name'')" "typeof (p ''name'') = ''string''"
    using name by (auto split: option.splits json.splits)
  have pdescr: "nullish (p ''description'') (str '''') =
      (if p ''description'' = None then str '''' else p ''description'')"
    using descr by (auto split: option.splits json.splits)
  have created: "createProduct p c newId now db =
      (Inr (docData p newId now), doc_set db c newId (docData p newId now))"
    using pname pstock pthresh by (rule createProduct_accepts)
  have ident: "docData p newId now ''id'' = str newId"
    using noextra by (simp add: docData_generated)
  have got: "getProductById newId c (snd (createProduct p c newId now db)) =
      Inr (docData p newId now)"
    by (simp add: created getProductById_def doc_get_doc_set
        with_id_same [of "docData p newId now" newId, OF ident])
  show ?thesis
    using created ident got pdescr noextra
    by (simp add: docData_named docData_stock_quantity docData_generated)
qed

theorem create_get_roundtrip_witness:
  "productCreateSchema widget = Some (strip_unknown widget)
   \<and> getProductById ''p1'' ''products''
        (snd (createProduct (strip_unknown widget) ''products'' ''p1'' ''t0'' empty_db)) =
       Inr (docData (strip_unknown widget) ''p1'' ''t0'')
   \<and> docData (strip_unknown widget) ''p1'' ''t0'' ''id'' = str ''p1''
   \<and> docData (strip_unknown widget) ''p1'' ''t0'' ''name'' = str ''Widget''
   \<and> docData (strip_unknown widget) ''p1'' ''t0'' ''description'' = str ''''
   \<and> docData (strip_unknown widget) ''p1'' ''t0'' ''stock_quantity'' = num 10
   \<and> docData (strip_unknown widget) ''p1'' ''t0'' ''low_stock_threshold'' = num 5
   \<and> docData (strip_unknown widget) ''p1'' ''t0'' ''createdAt'' = str ''t0''
   \<and> docData (strip_unknown widget) ''p1'' ''t0'' ''updatedAt'' = str ''t0''"
proof -
  have parsed: "productCreateSchema widget = Some (strip_unknown widget)"
    by (simp add: productCreateSchema_def schema_check_def widget_def)
  have fields: "strip_unknown widget ''name'' = str ''Widget''"
    "strip_unknown widget ''description'' = None"
    "strip_unknown widget ''stock_quantity'' = num 10"
    "strip_unknown widget ''low_stock_threshold'' = num 5"
    by (simp_all add: strip_unknown_def schema_keys_def widget_def)
  show ?thesis
    using create_get_roundtrip [OF parsed, of "''products''" "''p1''" "''t0''" empty_db] parsed fields
    by simp
qed

section \<open>Partial update\<close>

text \<open>
  C8, as stated, fails where no record has the id and a provided quantity is invalid:
  \<open>updateProduct\<close> tests the provided fields before it reads the record, so the update
  \<open>{stock_quantity: -1}\<close> of an id that the empty database does not hold fails with
  the validation error of status 400 and not with \<open>Product not found\<close>.
\<close>

theorem updateProduct_missing_invalid_counterexample:
  "doc_get empty_db ''products'' ''p0'' = None
   \<and> updateProduct ''p0'' negative_update ''products'' ''t1'' empty_db =
       (Inl (HttpError 400 ''stock_quantity must be an integer >= 0''), empty_db)
   \<and> fst (updateProduct ''p0'' negative_update ''products'' ''t1'' empty_db) \<noteq>
       Inl (HttpError 404 ''Product not found'')"
  by (simp add: updateProduct_def Let_def update_payload_def allowed_def negative_update_def
      doc_get_def empty_db_def)

text \<open>
  C8, amended. A provided \<open>stock_quantity\<close> or \<open>low_stock_threshold\<close> must be a
  non-negative integer, the test that \<open>createProduct\<close> applies to the same fields; when
  one is not, \<open>updateProduct\<close> fails with status 400 and leaves the database unchanged,
  whether or not the record exists. When the provided fields pass: if no record has the
  id the call fails with \<open>HttpError 404 ''Product not found''\<close> and the database is
  unchanged; if a record has the id, the stored record afterwards holds the time of the
  call in \<open>updatedAt\<close>, the provided value in each provided field among \<open>name\<close>,
  \<open>description\<close>, \<open>stock_quantity\<close> and \<open>low_stock_threshold\<close>, and its previous value
  in every other field (\<open>id\<close>, \<open>createdAt\<close> and the fields not provided among them), and
  every other document is as before.
\<close>

theorem updateProduct_effect:
  "(\<not> ((updates ''stock_quantity'' = None \<or> nonneg_integer (updates ''stock_quantity''))
       \<and> (updates ''low_stock_threshold'' = None \<or>
            nonneg_integer (updates ''low_stock_threshold'')))
     \<longrightarrow> (\<exists>msg. updateProduct pid updates c now db = (Inl (HttpError 400 msg), db)))
   \<and> ((updates ''stock_quantity'' = None \<or> nonneg_integer (updates ''stock_quantity''))
       \<and> (updates ''low_stock_threshold'' = None \<or>
            nonneg_integer (updates ''low_stock_threshold''))
     \<longrightarrow> (doc_get db c pid = None
            \<longrightarrow> updateProduct pid updates c now db =
                  (Inl (HttpError 404 ''Product not found''), db))
         \<and> (\<forall>data. doc_get db c pid = Some data
            \<longrightarrow> doc_get (snd (updateProduct pid updates c now db)) c pid =
                  Some (\<lambda>k. if k = ''updatedAt'' then str now
                            else if k \<in> set allowed \<and> updates k \<noteq> None then updates k
                            else data k)
                \<and> (\<forall>c' pid'. (c', pid') \<noteq> (c, pid) \<longrightarrow>
                      doc_get (snd (updateProduct pid updates c now db)) c' pid' =
                      doc_get db c' pid')))
   \<and> (truthy (payload ''name'') \<and> typeof (payload ''name'') = ''string''
     \<longrightarrow> (isl (fst (createProduct payload c newId now db)) \<longleftrightarrow>
           \<not> (nonneg_integer (payload ''stock_quantity'')
              \<and> (payload ''low_stock_threshold'' = None \<or>
                   nonneg_integer (payload ''low_stock_threshold'')))))"
proof (intro conjI impI allI)
  assume "\<not> ((updates ''stock_quantity'' = None \<or> nonneg_integer (updates ''stock_quantity''))
       \<and> (updates ''low_stock_threshold'' = None \<or>
            nonneg_integer (updates ''low_stock_threshold'')))"
  then show "\<exists>msg. updateProduct pid updates c now db = (Inl (HttpError 400 msg), db)"
    by (rule updateProduct_rejects)
next
  assume "(updates ''stock_quantity'' = None \<or> nonneg_integer (updates ''stock_quantity''))
       \<and> (updates ''low_stock_threshold'' = None \<or>
            nonneg_integer (updates ''low_stock_threshold''))"
    and "doc_get db c pid = None"
  then show "updateProduct pid updates c now db = (Inl (HttpError 404 ''Product not found''), db)"
    by (simp add: updateProduct_accepts)
next
  fix data
  assume "(updates ''stock_quantity'' = None \<or> nonneg_integer (updates ''stock_quantity''))
       \<and> (updates ''low_stock_threshold'' = None \<or>
            nonneg_integer (updates ''low_stock_threshold''))"
    and "doc_get db c pid = Some data"
  then show "doc_get (snd (updateProduct pid updates c now db)) c pid =
                  Some (\<lambda>k. if k = ''updatedAt'' then str now
                            else if k \<in> set allowed \<and> updates k \<noteq> None then updates k
                            else data k)"
    by (simp add: updateProduct_accepts doc_get_doc_update merged_update)
next
  fix data c' pid'
  assume "(updates ''stock_quantity'' = None \<or> nonneg_integer (updates ''stock_quantity''))
       \<and> (updates ''low_stock_threshold'' = None \<or>
            nonneg_integer (updates ''low_stock_threshold''))"
    and "doc_get db c pid = Some data" and "(c', pid') \<noteq> (c, pid)"
  then show "doc_get (snd (updateProduct pid updates c now db)) c' pid' = doc_get db c' pid'"
    by (simp add: updateProduct_accepts doc_get_doc_update_other)
next
  assume "truthy (payload ''name'') \<and> typeof (payload ''name'') = ''string''"
  then show "isl (fst (createProduct payload c newId now db)) \<longleftrightarrow>
           \<not> (nonneg_integer (payload ''stock_quantity'')
              \<and> (payload ''low_stock_threshold'' = None \<or>
                   nonneg_integer (payload ''low_stock_threshold'')))"
    by (simp add: createProduct_rejects_iff)
qed

theorem updateProduct_effect_witness:
  "(\<exists>msg. updateProduct ''g1'' negative_update ''products'' ''t1'' gadget_db =
       (Inl (HttpError 400 msg), gadget_db))
   \<and> updateProduct ''p0'' rename_update ''products'' ''t1'' gadget_db =
       (Inl (HttpError 404 ''Product not found''), gadget_db)
   \<and> map_option (\<lambda>data. (data ''name'', data ''stock_quantity'', data ''updatedAt'', data ''id''))
       (doc_get (snd (updateProduct ''g1'' rename_update ''products'' ''t1'' gadget_db))
          ''products'' ''g1'') =
       Some (str ''Gizmo'', num 5, str ''t1'', None)
   \<and> \<not> isl (fst (createProduct widget ''products'' ''p1'' ''t1'' gadget_db))"
proof -
  have invalid: "\<not> ((negative_update ''stock_quantity'' = None \<or>
        nonneg_integer (negative_update ''stock_quantity''))
      \<and> (negative_update ''low_stock_threshold'' = None \<or>
           nonneg_integer (negative_update ''low_stock_threshold'')))"
    by (simp add: negative_update_def)
  have valid: "(rename_update ''stock_quantity'' = None \<or>
        nonneg_integer (rename_update ''stock_quantity''))
      \<and> (rename_update ''low_stock_threshold'' = None \<or>
           nonneg_integer (rename_update ''low_stock_threshold''))"
    by (simp add: rename_update_def)
  have missing: "doc_get gadget_db ''products'' ''p0'' = None"
    by (simp add: gadget_db_def doc_get_def doc_set_def empty_db_def)
  have named: "truthy (widget ''name'') \<and> typeof (widget ''name'') = ''string''"
    by (simp add: widget_def)
  have quantities: "nonneg_integer (widget ''stock_quantity'')"
    "nonneg_integer (widget ''low_stock_threshold'')"
    by (simp_all add: widget_def)
  have renamed: "rename_update ''name'' = str ''Gizmo''" "rename_update ''stock_quantity'' = None"
    by (simp_all add: rename_update_def)
  have before: "gadget ''stock_quantity'' = num 5" "gadget ''id'' = None"
    by (simp_all add: gadget_def)
  note rejected =
    updateProduct_effect [of negative_update "''g1''" "''products''" "''t1''" gadget_db widget "''p1''"]
  note absent =
    updateProduct_effect [of rename_update "''p0''" "''products''" "''t1''" gadget_db widget "''p1''"]
  note present =
    updateProduct_effect [of rename_update "''g1''" "''products''" "''t1''" gadget_db widget "''p1''"]
  have first: "\<exists>msg. updateProduct ''g1'' negative_update ''products'' ''t1'' gadget_db =
       (Inl (HttpError 400 msg), gadget_db)"
    using rejected [THEN conjunct1] invalid by (rule mp)
  have second: "updateProduct ''p0'' rename_update ''products'' ''t1'' gadget_db =
       (Inl (HttpError 404 ''Product not found''), gadget_db)"
    using mp [OF absent [THEN conjunct2, THEN conjunct1] valid, THEN conjunct1] missing
    by (rule mp)
  have stored: "doc_get (snd (updateProduct ''g1'' rename_update ''products'' ''t1'' gadget_db))
          ''products'' ''g1'' =
      Some (\<lambda>k. if k = ''updatedAt'' then str ''t1''
                else if k \<in> set allowed \<and> rename_update k \<noteq> None then rename_update k
                else gadget k)"
    using mp [OF present [THEN conjunct2, THEN conjunct1] valid, THEN conjunct2, THEN spec,
        THEN mp, OF gadget_stored]
    by (rule conjunct1)
  have third: "map_option (\<lambda>data. (data ''name'', data ''stock_quantity'', data ''updatedAt'', data ''id''))
       (doc_get (snd (updateProduct ''g1'' rename_update ''products'' ''t1'' gadget_db))
          ''products'' ''g1'') =
       Some (str ''Gizmo'', num 5, str ''t1'', None)"
    by (simp add: stored allowed_def renamed before)
  have fourth: "\<not> isl (fst (createProduct widget ''products'' ''p1'' ''t1'' gadget_db))"
    using mp [OF present [THEN conjunct2, THEN conjunct2] named] quantities by simp
  show ?thesis
    using first second third fourth by (intro conjI)
qed

section \<open>A record without a quantity\<close>

text \<open>
  C9. For a stored record that has no \<open>stock_quantity\<close> field (reading it yields
  \<open>undefined\<close>) and a strictly positive integer amount \<open>n\<close>, the current quantity counts
  as zero: \<open>increaseStock\<close> stores and returns \<open>stock_quantity = n\<close>, and
  \<open>decreaseStock\<close> fails with \<open>HttpError 400 ''Insufficient stock''\<close> and leaves the
  database unchanged.
\<close>

theorem adjust_stock_missing_quantity:
  assumes "doc_get db c pid = Some data"
    and "data ''stock_quantity'' = None"
    and "0 < n"
  shows "fst (increaseStock pid (num (rat_of_int n)) c now db) =
           Inr (Map.empty(''id'' := str pid, ''stock_quantity'' := num (rat_of_int n)))
       \<and> doc_get (snd (increaseStock pid (num (rat_of_int n)) c now db)) c pid =
           Some (data(''stock_quantity'' := num (rat_of_int n), ''updatedAt'' := str now))
       \<and> decreaseStock pid (num (rat_of_int n)) c now db =
           (Inl (HttpError 400 ''Insufficient stock''), db)"
proof -
  have inc: "increaseStock pid (num (rat_of_int n)) c now db =
           (Inr (Map.empty(''id'' := str pid, ''stock_quantity'' := num (rat_of_int n))),
            doc_update db c pid
              (Map.empty(''stock_quantity'' := num (rat_of_int n), ''updatedAt'' := str now)))"
    using assms by (simp add: increaseStock_def Let_def fl_add_zero)
  have dec: "decreaseStock pid (num (rat_of_int n)) c now db =
           (Inl (HttpError 400 ''Insufficient stock''), db)"
    using assms by (simp add: decreaseStock_def Let_def)
  show ?thesis
    using inc dec assms(1) by (simp add: doc_get_doc_update merge_adjustment)
qed

theorem adjust_stock_missing_quantity_witness:
  "fst (increaseStock ''b1'' (num 3) ''products'' ''t1'' bare_db) =
     Inr (Map.empty(''id'' := str ''b1'', ''stock_quantity'' := num 3))
   \<and> doc_get (snd (increaseStock ''b1'' (num 3) ''products'' ''t1'' bare_db)) ''products'' ''b1'' =
       Some (bare(''stock_quantity'' := num 3, ''updatedAt'' := str ''t1''))
   \<and> decreaseStock ''b1'' (num 3) ''products'' ''t1'' bare_db =
       (Inl (HttpError 400 ''Insufficient stock''), bare_db)"
  using adjust_stock_missing_quantity [OF bare_stored bare_quantity, of 3 "''t1''"]
  by simp

section \<open>Extra fields of a creation payload\<close>

text \<open>
  C10, as stated, fails for an extra field named \<open>__proto__\<close>: the reducer's
  \<open>acc[k] = payload[k]\<close> stores nothing for that key, so a payload that carries
  \<open>__proto__\<close> is created without it.
\<close>

theorem createProduct_proto_counterexample:
  "proto_payload ''__proto__'' = str ''x''
   \<and> ''__proto__'' \<notin> set allowed
   \<and> createProduct proto_payload ''products'' ''p1'' ''t0'' empty_db =
       (Inr (docData proto_payload ''p1'' ''t0''),
        doc_set empty_db ''products'' ''p1'' (docData proto_payload ''p1'' ''t0''))
   \<and> docData proto_payload ''p1'' ''t0'' ''__proto__'' = None
   \<and> docData proto_payload ''p1'' ''t0'' ''__proto__'' \<noteq> proto_payload ''__proto__''"
proof -
  have created: "createProduct proto_payload ''products'' ''p1'' ''t0'' empty_db =
       (Inr (docData proto_payload ''p1'' ''t0''),
        doc_set empty_db ''products'' ''p1'' (docData proto_payload ''p1'' ''t0''))"
    by (rule createProduct_accepts) (simp_all add: proto_payload_def)
  have given: "proto_payload ''__proto__'' = str ''x''"
    by (simp add: proto_payload_def)
  show ?thesis
    by (simp add: created given docData_proto allowed_def)
qed

text \<open>
  C10, amended. When \<open>createProduct\<close> succeeds, the record it returns is the one stored
  under the generated id, and every field of the payload outside \<open>name\<close>,
  \<open>description\<close>, \<open>stock_quantity\<close> and \<open>low_stock_threshold\<close>, other than one named
  \<open>__proto__\<close>, is in it with the payload's value. In particular a field named \<open>id\<close>,
  \<open>createdAt\<close> or \<open>updatedAt\<close> in the payload takes the place of the generated value,
  since the extra fields are spread last. A field named \<open>__proto__\<close> is never stored.
\<close>

theorem createProduct_extra_fields:
  assumes "createProduct payload c newId now db = (Inr doc, db')"
  shows "doc_get db' c newId = Some doc
       \<and> (\<forall>k. k \<notin> set allowed \<longrightarrow> k \<noteq> ''__proto__'' \<longrightarrow> payload k \<noteq> None \<longrightarrow>
              doc k = payload k)
       \<and> (payload ''id'' \<noteq> None \<longrightarrow> doc ''id'' = payload ''id'')
       \<and> (payload ''createdAt'' \<noteq> None \<longrightarrow> doc ''createdAt'' = payload ''createdAt'')
       \<and> (payload ''updatedAt'' \<noteq> None \<longrightarrow> doc ''updatedAt'' = payload ''updatedAt'')
       \<and> doc ''__proto__'' = None"
proof -
  from assms have both: "doc = docData payload newId now \<and>
      db' = doc_set db c newId (docData payload newId now)"
    by (clarsimp simp: createProduct_def split: if_splits)
  then have doc: "doc = docData payload newId now"
    and db': "db' = doc_set db c newId doc"
    by simp_all
  have extra: "doc k = payload k"
    if "k \<notin> set allowed" and "k \<noteq> ''__proto__''" and "payload k \<noteq> None" for k
    unfolding doc using that by (rule docData_extra)
  have names: "''id'' \<notin> set allowed" "''createdAt'' \<notin> set allowed"
    "''updatedAt'' \<notin> set allowed"
    by (simp_all add: allowed_def)
  have other: "''id'' \<noteq> ''__proto__''" "''createdAt'' \<noteq> ''__proto__''"
    "''updatedAt'' \<noteq> ''__proto__''"
    by simp_all
  have stored: "doc_get db' c newId = Some doc"
    unfolding db' by (rule doc_get_doc_set)
  have proto: "doc ''__proto__'' = None"
    unfolding doc by (rule docData_proto)
  show ?thesis
  proof (intro conjI allI impI)
    show "doc_get db' c newId = Some doc" by (rule stored)
    show "doc k = payload k"
      if "k \<notin> set allowed" and "k \<noteq> ''__proto__''" and "payload k \<noteq> None" for k
      using that by (rule extra)
    show "doc ''id'' = payload ''id''" if "payload ''id'' \<noteq> None"
      using names(1) other(1) that by (rule extra)
    show "doc ''createdAt'' = payload ''createdAt''" if "payload ''createdAt'' \<noteq> None"
      using names(2) other(2) that by (rule extra)
    show "doc ''updatedAt'' = payload ''updatedAt''" if "payload ''updatedAt'' \<noteq> None"
      using names(3) other(3) that by (rule extra)
    show "doc ''__proto__'' = None" by (rule proto)
  qed
qed

theorem createProduct_extra_fields_witness:
  "fst (createProduct custom_payload ''products'' ''p1'' ''t0'' empty_db) =
     Inr (docData custom_payload ''p1'' ''t0'')
   \<and> doc_get (snd (createProduct custom_payload ''products'' ''p1'' ''t0'' empty_db))
        ''products'' ''p1'' = Some (docData custom_payload ''p1'' ''t0'')
   \<and> docData custom_payload ''p1'' ''t0'' ''id'' = str ''mine''
   \<and> docData custom_payload ''p1'' ''t0'' ''createdAt'' = str ''1999''
   \<and> docData custom_payload ''p1'' ''t0'' ''colour'' = str ''red''
   \<and> docData custom_payload ''p1'' ''t0'' ''__proto__'' = None"
proof -
  have created: "createProduct custom_payload ''products'' ''p1'' ''t0'' empty_db =
     (Inr (docData custom_payload ''p1'' ''t0''),
      doc_set empty_db ''products'' ''p1'' (docData custom_payload ''p1'' ''t0''))"
    by (rule createProduct_accepts) (simp_all add: custom_payload_def)
  note copied = createProduct_extra_fields [OF created]
  have given: "custom_payload ''id'' = str ''mine''" "custom_payload ''createdAt'' = str ''1999''"
    "custom_payload ''colour'' = str ''red''"
    by (simp_all add: custom_payload_def)
  have colour: "''colour'' \<notin> set allowed" "''colour'' \<noteq> ''__proto__''"
    by (simp_all add: allowed_def)
  from copied have stored: "doc_get (doc_set empty_db ''products'' ''p1''
      (docData custom_payload ''p1'' ''t0'')) ''products'' ''p1'' =
      Some (docData custom_payload ''p1'' ''t0'')"
    by (rule conjunct1)
  from copied given have ident: "docData custom_payload ''p1'' ''t0'' ''id'' = str ''mine''"
    by simp
  from copied given have stamp: "docData custom_payload ''p1'' ''t0'' ''createdAt'' = str ''1999''"
    by simp
  from copied have none: "docData custom_payload ''p1'' ''t0'' ''__proto__'' = None"
    by simp
  from copied have "\<forall>k. k \<notin> set allowed \<longrightarrow> k \<noteq> ''__proto__'' \<longrightarrow>
      custom_payload k \<noteq> None \<longrightarrow> docData custom_payload ''p1'' ''t0'' k = custom_payload k"
    by (rule conjunct2 [THEN conjunct1])
  then have "''colour'' \<notin> set allowed \<longrightarrow> ''colour'' \<noteq> ''__proto__'' \<longrightarrow>
      custom_payload ''colour'' \<noteq> None \<longrightarrow>
      docData custom_payload ''p1'' ''t0'' ''colour'' = custom_payload ''colour''"
    by (rule spec)
  with colour given have tint: "docData custom_payload ''p1'' ''t0'' ''colour'' = str ''red''"
    by simp
  show ?thesis
    using stored ident stamp tint none by (simp add: created)
qed

end
